theory Spec2Isabelle
  imports Complex_Main "HOL-Library.Multiset" "HOL-Library.Sublist" "HOL-Library.Log_Nat"
begin

section \<open>The parsed document\<close>

text \<open>
  \<^verbatim>\<open>json.load\<close> yields \<^verbatim>\<open>None\<close>, \<^verbatim>\<open>bool\<close>, \<^verbatim>\<open>int\<close>, \<^verbatim>\<open>float\<close>, \<^verbatim>\<open>str\<close>, \<^verbatim>\<open>list\<close> and
  \<^verbatim>\<open>dict\<close> values. A \<^verbatim>\<open>dict\<close> is an association list in insertion order (its keys are
  distinct, as a Python dictionary's are). A \<^verbatim>\<open>str\<close> is a list of characters, one
  \<open>char\<close> for each character of the Python string. A finite \<^verbatim>\<open>float\<close> is the rational
  number the double denotes; \<^verbatim>\<open>json.load\<close> also reads \<^verbatim>\<open>NaN\<close>, \<^verbatim>\<open>Infinity\<close> and
  \<^verbatim>\<open>-Infinity\<close>.
\<close>

datatype pyfloat = Finite rat | PosInf | NegInf | NaN

datatype json =
    JNull
  | JBool bool
  | JInt int
  | JFloat pyfloat
  | JStr string
  | JList "json list"
  | JDict "(string \<times> json) list"

datatype error = TypeError | AttributeError | KeyError | ValueError | OverflowError | OSError

text \<open>Sequencing of computations that may raise: the first exception ends the computation.\<close>

fun and_then :: "error + 'a \<Rightarrow> ('a \<Rightarrow> error + 'b) \<Rightarrow> error + 'b" where
  "and_then (Inl e) f = Inl e"
| "and_then (Inr x) f = f x"

subsection \<open>The operations of Python the script applies to parsed values\<close>

text \<open>Truth value testing (\<^verbatim>\<open>if x\<close>, \<^verbatim>\<open>not x\<close>, \<^verbatim>\<open>x or y\<close>).\<close>

fun truthy :: "json \<Rightarrow> bool" where
  "truthy JNull = False"
| "truthy (JBool b) = b"
| "truthy (JInt n) = (n \<noteq> 0)"
| "truthy (JFloat (Finite r)) = (r \<noteq> 0)"
| "truthy (JFloat f) = True"
| "truthy (JStr s) = (s \<noteq> [])"
| "truthy (JList xs) = (xs \<noteq> [])"
| "truthy (JDict kvs) = (kvs \<noteq> [])"

text \<open>\<^verbatim>\<open>sub in s\<close> on strings: \<^verbatim>\<open>sub\<close> occurs in \<^verbatim>\<open>s\<close> as a contiguous run.\<close>

fun contains_str :: "string \<Rightarrow> string \<Rightarrow> bool" where
  "contains_str sub [] = (sub = [])"
| "contains_str sub (c # cs) = (take (length sub) (c # cs) = sub \<or> contains_str sub cs)"

text \<open>
  \<^verbatim>\<open>key in obj\<close> for a string \<^verbatim>\<open>key\<close>: key membership on a \<^verbatim>\<open>dict\<close>, substring test on
  a \<^verbatim>\<open>str\<close>, element membership on a \<^verbatim>\<open>list\<close>, \<^verbatim>\<open>TypeError\<close> on anything else.
\<close>

fun py_in :: "string \<Rightarrow> json \<Rightarrow> error + bool" where
  "py_in key (JDict kvs) = Inr (key \<in> set (map fst kvs))"
| "py_in key (JStr s) = Inr (contains_str key s)"
| "py_in key (JList xs) = Inr (JStr key \<in> set xs)"
| "py_in key v = Inl TypeError"

text \<open>
  \<^verbatim>\<open>obj[key]\<close> for a string \<^verbatim>\<open>key\<close>: lookup on a \<^verbatim>\<open>dict\<close> (\<^verbatim>\<open>KeyError\<close> when missing),
  \<^verbatim>\<open>TypeError\<close> on anything else (a \<^verbatim>\<open>str\<close> or \<^verbatim>\<open>list\<close> wants an integer index, the other
  values are not subscriptable).
\<close>

fun py_getitem :: "json \<Rightarrow> string \<Rightarrow> error + json" where
  "py_getitem (JDict kvs) key = (case map_of kvs key of Some v \<Rightarrow> Inr v | None \<Rightarrow> Inl KeyError)"
| "py_getitem v key = Inl TypeError"

text \<open>\<^verbatim>\<open>obj.get(key, default)\<close>: only a \<^verbatim>\<open>dict\<close> has the method.\<close>

fun py_get :: "json \<Rightarrow> string \<Rightarrow> json \<Rightarrow> error + json" where
  "py_get (JDict kvs) key dflt = Inr (case map_of kvs key of Some v \<Rightarrow> v | None \<Rightarrow> dflt)"
| "py_get v key dflt = Inl AttributeError"

text \<open>
  Iteration (\<^verbatim>\<open>for x in obj\<close>): the elements of a \<^verbatim>\<open>list\<close>, the keys of a \<^verbatim>\<open>dict\<close>, the
  characters of a \<^verbatim>\<open>str\<close>; \<^verbatim>\<open>TypeError\<close> on anything else.
\<close>

fun py_iter :: "json \<Rightarrow> error + json list" where
  "py_iter (JList xs) = Inr xs"
| "py_iter (JDict kvs) = Inr (map (\<lambda>kv. JStr (fst kv)) kvs)"
| "py_iter (JStr s) = Inr (map (\<lambda>c. JStr [c]) s)"
| "py_iter v = Inl TypeError"

fun py_len :: "json \<Rightarrow> error + nat" where
  "py_len (JList xs) = Inr (length xs)"
| "py_len (JDict kvs) = Inr (length kvs)"
| "py_len (JStr s) = Inr (length s)"
| "py_len v = Inl TypeError"

fun is_dict :: "json \<Rightarrow> bool" where
  "is_dict (JDict kvs) = True"
| "is_dict v = False"

fun is_list :: "json \<Rightarrow> bool" where
  "is_list (JList xs) = True"
| "is_list v = False"

subsection \<open>Library functions taken as parameters\<close>

text \<open>
  A \<^verbatim>\<open>datetime\<close> is its wall-clock reading in microseconds since 1970-01-01T00:00:00 and,
  when it is timezone-aware, its offset from UTC in microseconds.
\<close>

record pydatetime =
  wall :: int
  tzoff :: "int option"

text \<open>
  Three functions of the Python library are parameters of the model, since what they
  compute is outside the script:
  \<^item> \<open>repr\<close>: the text \<^verbatim>\<open>str(v)\<close> gives for a value that is not a string (\<^verbatim>\<open>None\<close>,
    \<^verbatim>\<open>True\<close>, decimal digits, the shortest float literal, the display of a container);
  \<^item> \<open>fromisoformat\<close>: \<^verbatim>\<open>datetime.fromisoformat\<close>, \<open>None\<close> where it raises;
  \<^item> \<open>strptime\<close>: \<^verbatim>\<open>datetime.strptime(s, fmt)\<close>, a naive wall-clock reading, \<open>None\<close> where
    it raises.
\<close>

record pylib =
  repr :: "json \<Rightarrow> string"
  fromisoformat :: "string \<Rightarrow> pydatetime option"
  strptime :: "string \<Rightarrow> string \<Rightarrow> int option"

fun py_str :: "pylib \<Rightarrow> json \<Rightarrow> string" where
  "py_str L (JStr s) = s"
| "py_str L v = repr L v"

text \<open>\<^verbatim>\<open>sep.join(xs)\<close> with a single space as separator.\<close>

fun join_space :: "string list \<Rightarrow> string" where
  "join_space [] = []"
| "join_space [x] = x"
| "join_space (x # y # zs) = x @ '' '' @ join_space (y # zs)"

text \<open>
  \<^verbatim>\<open>s.strip()\<close> is truthy exactly when \<^verbatim>\<open>s\<close> has a character that is not whitespace; the
  whitespace characters below 256 are those \<^verbatim>\<open>str.isspace\<close> accepts.
\<close>

definition is_space :: "char \<Rightarrow> bool" where
  "is_space c = (of_char c \<in> {9, 10, 11, 12, 13, 28, 29, 30, 31, 32, 133, 160 :: nat})"

definition strip_nonempty :: "string \<Rightarrow> bool" where
  "strip_nonempty s = (filter (\<lambda>c. \<not> is_space c) s \<noteq> [])"

text \<open>\<^verbatim>\<open>s.replace('Z', '+00:00')\<close>.\<close>

definition replace_Z :: "string \<Rightarrow> string" where
  "replace_Z s = concat (map (\<lambda>c. if c = CHR ''Z'' then ''+00:00'' else [c]) s)"

section \<open>Time\<close>

text \<open>
  \<^verbatim>\<open>timedelta(days=n)\<close> in microseconds, and the range of \<^verbatim>\<open>datetime\<close>: from
  0001-01-01T00:00:00 to 9999-12-31T23:59:59.999999.
\<close>

definition days :: "int \<Rightarrow> int" where
  "days n = n * 86400000000"

definition MIN_US :: int where
  "MIN_US = - 62135596800000000"

definition MAX_US :: int where
  "MAX_US = 253402300799999999"

text \<open>Rounding to the nearest integer, ties to the even one.\<close>

definition round_half_even :: "rat \<Rightarrow> int" where
  "round_half_even x =
     (let f = \<lfloor>x\<rfloor>; d = x - of_int f
      in if d < 1 / 2 then f else if 1 / 2 < d then f + 1 else if even f then f else f + 1)"

subsection \<open>Double arithmetic\<close>

text \<open>
  The exponent of a positive number: \<open>ilog2 x\<close> is the integer \<open>k\<close> with
  \<open>2 ^ k \<le> x < 2 ^ (k + 1)\<close>.
\<close>

definition ilog2 :: "rat \<Rightarrow> int" where
  "ilog2 x = (if 1 \<le> x then bitlen \<lfloor>x\<rfloor> - 1 else - bitlen (\<lceil>1 / x\<rceil> - 1))"

text \<open>
  The result of an arithmetic operation on doubles is the exact result rounded to the
  nearest double, ties to the even significand: a double has a significand of 53 bits,
  and below \<open>2 ^ (- 1022)\<close> the spacing stays \<open>2 ^ (- 1074)\<close>. The operations below
  cannot exceed the largest double, except the division of an \<^verbatim>\<open>int\<close>, which tests it.
\<close>

definition fl :: "rat \<Rightarrow> rat" where
  "fl x =
     (if x = 0 then 0
      else let e = max (ilog2 \<bar>x\<bar> - 52) (- 1074)
           in of_int (round_half_even (x / power_int 2 e)) * power_int 2 e)"

text \<open>
  \<^verbatim>\<open>isinstance(timestamp, (int, float))\<close>, with the number the value stands for. A \<^verbatim>\<open>bool\<close>
  is an \<^verbatim>\<open>int\<close> in Python.
\<close>

datatype pynum = PyInt int | PyFloat pyfloat

fun py_number :: "json \<Rightarrow> pynum option" where
  "py_number (JInt n) = Some (PyInt n)"
| "py_number (JBool b) = Some (PyInt (if b then 1 else 0))"
| "py_number (JFloat f) = Some (PyFloat f)"
| "py_number v = None"

text \<open>
  \<^verbatim>\<open>timestamp > 1e12\<close>: Python compares an \<^verbatim>\<open>int\<close> with a \<^verbatim>\<open>float\<close> exactly, and every
  comparison with \<^verbatim>\<open>NaN\<close> is false.
\<close>

fun gt_1e12 :: "pynum \<Rightarrow> bool" where
  "gt_1e12 (PyInt n) = (1000000000000 < n)"
| "gt_1e12 (PyFloat (Finite r)) = (1000000000000 < r)"
| "gt_1e12 (PyFloat PosInf) = True"
| "gt_1e12 (PyFloat NegInf) = False"
| "gt_1e12 (PyFloat NaN) = False"

text \<open>
  \<^verbatim>\<open>timestamp / 1000\<close>: the quotient is a \<^verbatim>\<open>float\<close>, the double nearest to the exact
  quotient. The division of an \<^verbatim>\<open>int\<close> raises \<^verbatim>\<open>OverflowError\<close> when the result is too
  large for a double, that is when it reaches \<open>2 ^ 1024\<close>.
\<close>

fun div_1000 :: "pynum \<Rightarrow> error + pyfloat" where
  "div_1000 (PyInt n) =
     (let q = fl (of_int n / 1000)
      in if 1024 \<le> ilog2 \<bar>q\<bar> then Inl OverflowError else Inr (Finite q))"
| "div_1000 (PyFloat (Finite r)) = Inr (Finite (fl (r / 1000)))"
| "div_1000 (PyFloat f) = Inr f"

text \<open>
  The seconds and microseconds CPython reads from a double (\<^verbatim>\<open>_PyTime_ObjectToTimeval\<close>
  with \<^verbatim>\<open>ROUND_HALF_EVEN\<close>): \<^verbatim>\<open>modf\<close> splits the number into its integral part (towards
  zero) and its fraction, the fraction is multiplied by \<^verbatim>\<open>1e6\<close> as a double, the product
  is rounded to an integer, ties to even, and a product that reaches a full second or is
  negative is carried into the seconds.
\<close>

definition double_to_timeval :: "rat \<Rightarrow> int \<times> int" where
  "double_to_timeval d =
     (let intpart = (if 0 \<le> d then \<lfloor>d\<rfloor> else \<lceil>d\<rceil>);
          floatpart = round_half_even (fl ((d - of_int intpart) * 1000000))
      in if 1000000 \<le> floatpart then (intpart + 1, floatpart - 1000000)
         else if floatpart < 0 then (intpart - 1, floatpart + 1000000)
         else (intpart, floatpart))"

text \<open>
  The \<^verbatim>\<open>datetime\<close> of \<open>sec\<close> seconds and \<open>us\<close> microseconds since the epoch, in UTC, as
  CPython 3.11 builds it on 64-bit Linux: \<^verbatim>\<open>OverflowError\<close> when the seconds do not fit
  the platform's \<^verbatim>\<open>time_t\<close> of 64 bits, \<^verbatim>\<open>OSError\<close> when \<^verbatim>\<open>gmtime\<close> cannot express the
  year, and \<^verbatim>\<open>ValueError\<close> when the year is not one of 1 to 9999.
\<close>

definition datetime_from_timet_and_us :: "int \<Rightarrow> int \<Rightarrow> error + pydatetime" where
  "datetime_from_timet_and_us sec us =
     (if sec < - 9223372036854775808 \<or> 9223372036854775808 \<le> sec then Inl OverflowError
      else if sec < - 67768040609740800 \<or> 67768036191676799 < sec then Inl OSError
      else if sec < - 62135596800 \<or> 253402300799 < sec then Inl ValueError
      else Inr \<lparr>wall = sec * 1000000 + us, tzoff = Some 0\<rparr>)"

text \<open>
  \<^verbatim>\<open>datetime.fromtimestamp(t, tz=timezone.utc)\<close>: an \<^verbatim>\<open>int\<close> is taken as whole seconds, a
  \<^verbatim>\<open>float\<close> is split as above; \<^verbatim>\<open>NaN\<close> raises \<^verbatim>\<open>ValueError\<close> and an infinity
  \<^verbatim>\<open>OverflowError\<close>.
\<close>

fun fromtimestamp :: "pynum \<Rightarrow> error + pydatetime" where
  "fromtimestamp (PyInt n) = datetime_from_timet_and_us n 0"
| "fromtimestamp (PyFloat (Finite d)) =
     (case double_to_timeval d of (sec, us) \<Rightarrow> datetime_from_timet_and_us sec us)"
| "fromtimestamp (PyFloat NaN) = Inl ValueError"
| "fromtimestamp (PyFloat f) = Inl OverflowError"

section \<open>Loading: the shape of the document\<close>

text \<open>
  Lines 31 to 45 of \<^verbatim>\<open>split_conversations_by_time\<close>. \<open>None\<close> is the branch that prints
  "Unexpected data structure" and returns.
\<close>

definition load_conversations :: "json \<Rightarrow> json option" where
  "load_conversations data =
     (case data of
        JDict kvs \<Rightarrow>
          (if ''conversations'' \<in> set (map fst kvs) then map_of kvs ''conversations''
           else if ''items'' \<in> set (map fst kvs) then map_of kvs ''items''
           else (case filter is_list (map snd kvs) of
                   [] \<Rightarrow> Some (JList [])
                 | v # vs \<Rightarrow> Some v))
      | JList xs \<Rightarrow> Some data
      | _ \<Rightarrow> None)"

section \<open>Timestamp resolution\<close>

definition top_fields :: "string list" where
  "top_fields = [''create_time'', ''created_at'', ''timestamp'', ''created'', ''date'',
     ''updated_at'', ''update_time'']"

definition metadata_fields :: "string list" where
  "metadata_fields = [''create_time'', ''created_at'', ''timestamp'', ''created'', ''date'']"

text \<open>
  The loop \<^verbatim>\<open>for field in [...]: if field in obj: timestamp = obj[field]; break\<close>;
  \<open>ts\<close> is the value of \<^verbatim>\<open>timestamp\<close> before the loop, kept when no field is present.
\<close>

fun scan_fields :: "string list \<Rightarrow> json \<Rightarrow> json \<Rightarrow> error + json" where
  "scan_fields [] obj ts = Inr ts"
| "scan_fields (field # rest) obj ts =
     (case py_in field obj of
        Inl e \<Rightarrow> Inl e
      | Inr present \<Rightarrow> if present then py_getitem obj field else scan_fields rest obj ts)"

text \<open>Lines 66 to 78: the value of \<^verbatim>\<open>timestamp\<close> when line 80 tests it.\<close>

definition find_timestamp :: "json \<Rightarrow> error + json" where
  "find_timestamp conv =
     and_then (scan_fields top_fields conv JNull) (\<lambda>ts.
       if truthy ts then Inr ts
       else and_then (py_in ''metadata'' conv) (\<lambda>has_metadata.
         if has_metadata
         then and_then (py_getitem conv ''metadata'') (\<lambda>metadata.
                scan_fields metadata_fields metadata ts)
         else Inr ts))"

text \<open>Lines 89 to 92: a number read as seconds, or as milliseconds above \<^verbatim>\<open>1e12\<close>.\<close>

definition numeric_date :: "pynum \<Rightarrow> error + pydatetime" where
  "numeric_date t =
     (if gt_1e12 t then and_then (div_1000 t) (\<lambda>q. fromtimestamp (PyFloat q))
      else fromtimestamp t)"

definition strptime_formats :: "string list" where
  "strptime_formats = [''%Y-%m-%d %H:%M:%S'', ''%Y-%m-%dT%H:%M:%S'', ''%Y-%m-%d'']"

text \<open>Lines 104 to 111: the first format that parses wins; the result is labelled UTC.\<close>

fun try_formats :: "pylib \<Rightarrow> string \<Rightarrow> string list \<Rightarrow> pydatetime option" where
  "try_formats L s [] = None"
| "try_formats L s (fmt # fmts) =
     (case strptime L s fmt of
        Some w \<Rightarrow> Some \<lparr>wall = w, tzoff = Some 0\<rparr>
      | None \<Rightarrow> try_formats L s fmts)"

text \<open>Lines 95 to 113; the bare \<^verbatim>\<open>except\<close> clauses swallow every exception of the parsers.\<close>

definition string_date :: "pylib \<Rightarrow> string \<Rightarrow> pydatetime option" where
  "string_date L s =
     (case fromisoformat L (replace_Z s) of
        Some d \<Rightarrow> Some (if tzoff d = None then d\<lparr>tzoff := Some 0\<rparr> else d)
      | None \<Rightarrow> try_formats L s strptime_formats)"

text \<open>Lines 86 to 113: \<^verbatim>\<open>conv_date\<close>, \<open>None\<close> when it is still \<^verbatim>\<open>None\<close> at line 115.\<close>

definition conv_date :: "pylib \<Rightarrow> json \<Rightarrow> error + pydatetime option" where
  "conv_date L timestamp =
     (case py_number timestamp of
        Some t \<Rightarrow> and_then (numeric_date t) (\<lambda>d. Inr (Some d))
      | None \<Rightarrow> (case timestamp of JStr s \<Rightarrow> Inr (string_date L s) | _ \<Rightarrow> Inr None))"

text \<open>
  Lines 120 to 124: \<^verbatim>\<open>astimezone(timezone.utc)\<close> subtracts the offset and raises
  \<^verbatim>\<open>OverflowError\<close> when the result leaves the range of \<^verbatim>\<open>datetime\<close>; a naive value is
  labelled UTC. The result is the instant in microseconds since the epoch.
\<close>

definition normalize_utc :: "pydatetime \<Rightarrow> error + int" where
  "normalize_utc d =
     (case tzoff d of
        Some off \<Rightarrow>
          (if off = 0 then Inr (wall d)
           else if MIN_US \<le> wall d - off \<and> wall d - off \<le> MAX_US then Inr (wall d - off)
           else Inl OverflowError)
      | None \<Rightarrow> Inr (wall d))"

section \<open>Bucketing\<close>

datatype bucket = Last_3_months | B_3_6_months | B_6_12_months | Older

definition bucket_name :: "bucket \<Rightarrow> string" where
  "bucket_name k =
     (case k of Last_3_months \<Rightarrow> ''last-3-months'' | B_3_6_months \<Rightarrow> ''3-6-months''
      | B_6_12_months \<Rightarrow> ''6-12-months'' | Older \<Rightarrow> ''older'')"

text \<open>The insertion order of the \<^verbatim>\<open>buckets\<close> dictionary, which the saving loop follows.\<close>

definition bucket_order :: "bucket list" where
  "bucket_order = [Last_3_months, B_3_6_months, B_6_12_months, Older]"

text \<open>Lines 127 to 134, for the instant \<open>d\<close> of a conversation and the instant \<open>now\<close>.\<close>

definition bucket_of :: "int \<Rightarrow> int \<Rightarrow> bucket" where
  "bucket_of now d =
     (if now - days 90 \<le> d then Last_3_months
      else if now - days 180 \<le> d then B_3_6_months
      else if now - days 365 \<le> d then B_6_12_months
      else Older)"

text \<open>The body of the loop of lines 64 to 134: the bucket one conversation is appended to.\<close>

definition classify :: "pylib \<Rightarrow> int \<Rightarrow> json \<Rightarrow> error + bucket" where
  "classify L now conv =
     and_then (find_timestamp conv) (\<lambda>timestamp.
       if \<not> truthy timestamp then Inr Older
       else and_then (conv_date L timestamp) (\<lambda>cd.
         case cd of
           None \<Rightarrow> Inr Older
         | Some d \<Rightarrow> and_then (normalize_utc d) (\<lambda>u. Inr (bucket_of now u))))"

type_synonym buckets = "bucket \<Rightarrow> json list"

fun sort_into :: "pylib \<Rightarrow> int \<Rightarrow> json list \<Rightarrow> buckets \<Rightarrow> error + buckets" where
  "sort_into L now [] b = Inr b"
| "sort_into L now (conv # convs) b =
     (case classify L now conv of
        Inl e \<Rightarrow> Inl e
      | Inr k \<Rightarrow> sort_into L now convs (b(k := b k @ [conv])))"

section \<open>Minimizing a conversation\<close>

record normalized_message =
  role :: json
  content :: string

record minimized =
  messages :: "normalized_message list"
  timestamp :: json
  title :: string

text \<open>
  A loop that appends at most one message for each element: \<open>body\<close> gives the message
  an element contributes, \<open>None\<close> when it contributes none, or the exception it raises.
\<close>

fun collect :: "('a \<Rightarrow> error + normalized_message option) \<Rightarrow> 'a list
    \<Rightarrow> error + normalized_message list" where
  "collect body [] = Inr []"
| "collect body (x # xs) =
     (case body x of
        Inl e \<Rightarrow> Inl e
      | Inr r \<Rightarrow>
          (case collect body xs of
             Inl e \<Rightarrow> Inl e
           | Inr ms \<Rightarrow> Inr (case r of None \<Rightarrow> ms | Some m \<Rightarrow> m # ms)))"

text \<open>
  Lines 147 to 153: the joined text \<^verbatim>\<open>content\<close> of a node of \<^verbatim>\<open>mapping\<close>, \<open>None\<close> when
  one of the tests fails and the node contributes no message.
\<close>

definition node_content :: "pylib \<Rightarrow> json \<Rightarrow> error + string option" where
  "node_content L node =
     and_then (py_get node ''message'' JNull) (\<lambda>message.
       if \<not> truthy message then Inr None
       else and_then (py_get message ''content'' JNull) (\<lambda>c.
         if \<not> truthy c then Inr None
         else and_then (py_getitem message ''content'') (\<lambda>c'.
           and_then (py_get c' ''parts'' (JList [])) (\<lambda>content_parts.
             if \<not> truthy content_parts then Inr None
             else and_then (py_iter content_parts) (\<lambda>parts.
               let joined = join_space (map (py_str L) (filter truthy parts))
               in if strip_nonempty joined then Inr (Some joined) else Inr None)))))"

text \<open>Lines 154 to 157: the message appended for a node whose text passed the tests.\<close>

definition mapping_node :: "pylib \<Rightarrow> json \<Rightarrow> error + normalized_message option" where
  "mapping_node L node =
     and_then (node_content L node) (\<lambda>nc.
       case nc of
         None \<Rightarrow> Inr None
       | Some joined \<Rightarrow>
           and_then (py_get node ''message'' JNull) (\<lambda>message.
             and_then (py_get message ''author'' (JDict [])) (\<lambda>author.
               and_then (py_get author ''role'' (JStr ''unknown'')) (\<lambda>r.
                 Inr (Some \<lparr>role = r, content = take 5000 joined\<rparr>)))))"

text \<open>Line 164: \<^verbatim>\<open>msg.get('content') or msg.get('text') or ''\<close>.\<close>

definition message_content :: "json \<Rightarrow> error + json" where
  "message_content msg =
     and_then (py_get msg ''content'' JNull) (\<lambda>a.
       if truthy a then Inr a
       else and_then (py_get msg ''text'' JNull) (\<lambda>b.
         if truthy b then Inr b else Inr (JStr [])))"

text \<open>
  Lines 165 to 169; the default \<^verbatim>\<open>msg.get('author', 'unknown')\<close> is evaluated before the
  outer \<^verbatim>\<open>get\<close> is called.
\<close>

definition message_entry :: "pylib \<Rightarrow> json \<Rightarrow> error + normalized_message option" where
  "message_entry L msg =
     and_then (message_content msg) (\<lambda>c.
       if truthy c
       then and_then (py_get msg ''author'' (JStr ''unknown'')) (\<lambda>author.
              and_then (py_get msg ''role'' author) (\<lambda>r.
                Inr (Some \<lparr>role = r, content = take 5000 (py_str L c)\<rparr>)))
       else Inr None)"

text \<open>Lines 174 to 178.\<close>

definition item_entry :: "pylib \<Rightarrow> json \<Rightarrow> error + normalized_message option" where
  "item_entry L item =
     (if is_dict item
      then and_then (py_in ''content'' item) (\<lambda>has_content.
             if has_content
             then and_then (py_get item ''role'' (JStr ''unknown'')) (\<lambda>r.
                    and_then (py_getitem item ''content'') (\<lambda>c.
                      Inr (Some \<lparr>role = r, content = take 5000 (py_str L c)\<rparr>)))
             else Inr None)
      else Inr None)"

text \<open>Lines 139 to 178: the list \<^verbatim>\<open>messages\<close> when the \<^verbatim>\<open>return\<close> is reached.\<close>

definition extract_messages :: "pylib \<Rightarrow> json \<Rightarrow> error + normalized_message list" where
  "extract_messages L conv =
     and_then (py_in ''mapping'' conv) (\<lambda>has_mapping.
       if has_mapping
       then and_then (py_getitem conv ''mapping'') (\<lambda>msg_list.
              case msg_list of
                JDict nodes \<Rightarrow> collect (mapping_node L) (map snd nodes)
              | _ \<Rightarrow> Inr [])
       else and_then (py_in ''messages'' conv) (\<lambda>has_messages.
         if has_messages
         then and_then (py_getitem conv ''messages'') (\<lambda>msg_list.
                case msg_list of
                  JList msgs \<Rightarrow> collect (message_entry L) msgs
                | _ \<Rightarrow> Inr [])
         else and_then (py_in ''items'' conv) (\<lambda>has_items.
           if has_items
           then and_then (py_getitem conv ''items'') (\<lambda>items.
                  and_then (py_iter items) (\<lambda>its. collect (item_entry L) its))
           else Inr [])))"

text \<open>
  Line 182: \<^verbatim>\<open>conv.get('create_time') or conv.get('created_at') or conv.get('timestamp')\<close>.
\<close>

definition raw_timestamp :: "json \<Rightarrow> error + json" where
  "raw_timestamp conv =
     and_then (py_get conv ''create_time'' JNull) (\<lambda>a.
       if truthy a then Inr a
       else and_then (py_get conv ''created_at'' JNull) (\<lambda>b.
         if truthy b then Inr b else py_get conv ''timestamp'' JNull))"

definition minimize_conv :: "pylib \<Rightarrow> json \<Rightarrow> error + minimized" where
  "minimize_conv L conv =
     and_then (extract_messages L conv) (\<lambda>msgs.
       and_then (raw_timestamp conv) (\<lambda>ts.
         and_then (py_get conv ''title'' (JStr [])) (\<lambda>t.
           Inr \<lparr>messages = msgs, timestamp = ts, title = take 100 (py_str L t)\<rparr>)))"

section \<open>Saving the buckets\<close>

text \<open>Line 194: \<^verbatim>\<open>[minimize_conv(conv) for conv in conversations]\<close>.\<close>

fun minimize_all :: "pylib \<Rightarrow> json list \<Rightarrow> error + minimized list" where
  "minimize_all L [] = Inr []"
| "minimize_all L (conv # convs) =
     (case minimize_conv L conv of
        Inl e \<Rightarrow> Inl e
      | Inr m \<Rightarrow>
          (case minimize_all L convs of
             Inl e \<Rightarrow> Inl e
           | Inr ms \<Rightarrow> Inr (m # ms)))"

text \<open>
  What a run leaves behind: \<open>Reported\<close> when the shape of the document was refused
  (a message is printed and nothing is written), \<open>Raised e files\<close> when an exception
  \<open>e\<close> escaped after \<open>files\<close> were written, \<open>Finished files\<close> otherwise. A file is its
  name without the extension and the list that is serialised into it. Failures of the
  file system are not modelled.
\<close>

type_synonym files = "(string \<times> minimized list) list"

datatype outcome = Reported | Raised error files | Finished files

text \<open>Lines 188 to 199: an empty bucket is skipped, the others are written in order.\<close>

fun save_buckets :: "pylib \<Rightarrow> buckets \<Rightarrow> bucket list \<Rightarrow> files \<Rightarrow> outcome" where
  "save_buckets L b [] written = Finished written"
| "save_buckets L b (k # ks) written =
     (if b k = [] then save_buckets L b ks written
      else (case minimize_all L (b k) of
              Inl e \<Rightarrow> Raised e written
            | Inr minimal \<Rightarrow> save_buckets L b ks (written @ [(bucket_name k, minimal)])))"

text \<open>
  The function from line 30 on, for the parsed document \<open>data\<close> and the instant \<open>now\<close>
  that line 50 reads from the clock. Subtracting 365 days raises \<^verbatim>\<open>OverflowError\<close>
  when the result is before the first \<^verbatim>\<open>datetime\<close>.
\<close>

definition split_conversations_by_time :: "pylib \<Rightarrow> int \<Rightarrow> json \<Rightarrow> outcome" where
  "split_conversations_by_time L now data =
     (case load_conversations data of
        None \<Rightarrow> Reported
      | Some conversations \<Rightarrow>
          (case py_len conversations of
             Inl e \<Rightarrow> Raised e []
           | Inr n \<Rightarrow>
               if now - days 365 < MIN_US then Raised OverflowError []
               else (case py_iter conversations of
                       Inl e \<Rightarrow> Raised e []
                     | Inr convs \<Rightarrow>
                         (case sort_into L now convs (\<lambda>k. []) of
                            Inl e \<Rightarrow> Raised e []
                          | Inr b \<Rightarrow> save_buckets L b bucket_order []))))"

text \<open>
  A library for evaluating the model on documents whose processing calls none of the
  three functions.
\<close>

definition no_lib :: pylib where
  "no_lib = \<lparr>repr = (\<lambda>v. []), fromisoformat = (\<lambda>s. None), strptime = (\<lambda>s fmt. None)\<rparr>"

section \<open>Properties\<close>

lemma and_then_Inr_iff: "and_then m f = Inr y \<longleftrightarrow> (\<exists>x. m = Inr x \<and> f x = Inr y)"
  by (cases m) simp_all

lemma sort_into_filter:
  "sort_into L now convs b = Inr b' \<Longrightarrow>
   b' k = b k @ filter (\<lambda>c. classify L now c = Inr k) convs"
proof (induction convs arbitrary: b)
  case Nil
  then show ?case by simp
next
  case (Cons conv convs)
  from Cons.prems obtain k0 where k0: "classify L now conv = Inr k0"
    and rest: "sort_into L now convs (b(k0 := b k0 @ [conv])) = Inr b'"
    by (auto split: sum.splits)
  from Cons.IH [OF rest] k0 show ?case by auto
qed

lemma sort_into_total:
  "sort_into L now convs b = Inr b' \<Longrightarrow> c \<in> set convs \<Longrightarrow> \<exists>k. classify L now c = Inr k"
proof (induction convs arbitrary: b)
  case Nil
  then show ?case by simp
next
  case (Cons conv convs)
  from Cons.prems(1) obtain k0 where k0: "classify L now conv = Inr k0"
    and rest: "sort_into L now convs (b(k0 := b k0 @ [conv])) = Inr b'"
    by (auto split: sum.splits)
  show ?case
  proof (cases "c = conv")
    case True
    with k0 show ?thesis by blast
  next
    case False
    with Cons.prems(2) have "c \<in> set convs" by simp
    from Cons.IH [OF rest this] show ?thesis .
  qed
qed

lemma mset_four_filters:
  "\<forall>c \<in> set xs. \<exists>k. f c = Inr k \<Longrightarrow>
   mset xs = mset (filter (\<lambda>c. f c = Inr Last_3_months) xs)
           + mset (filter (\<lambda>c. f c = Inr B_3_6_months) xs)
           + mset (filter (\<lambda>c. f c = Inr B_6_12_months) xs)
           + mset (filter (\<lambda>c. f c = Inr Older) xs)"
proof (induction xs)
  case Nil
  then show ?case by simp
next
  case (Cons x xs)
  from Cons.prems obtain k where k: "f x = Inr k" by auto
  from Cons have IH: "mset xs = mset (filter (\<lambda>c. f c = Inr Last_3_months) xs)
           + mset (filter (\<lambda>c. f c = Inr B_3_6_months) xs)
           + mset (filter (\<lambda>c. f c = Inr B_6_12_months) xs)
           + mset (filter (\<lambda>c. f c = Inr Older) xs)" by simp
  show ?case
    by (cases k) (simp_all add: k, (subst IH, simp)+)
qed

lemma minimize_all_list_all2:
  "minimize_all L convs = Inr ms \<longleftrightarrow> list_all2 (\<lambda>c m. minimize_conv L c = Inr m) convs ms"
proof (induction convs arbitrary: ms)
  case Nil
  then show ?case by auto
next
  case (Cons conv convs)
  show ?case
    by (cases ms) (auto split: sum.splits simp: Cons.IH [symmetric])
qed

lemma save_buckets_Finished:
  "save_buckets L b ks written = Finished files \<Longrightarrow>
   (\<forall>k \<in> set ks. \<exists>ms. minimize_all L (b k) = Inr ms)
   \<and> files = written @ map (\<lambda>k. (bucket_name k, projr (minimize_all L (b k))))
                         (filter (\<lambda>k. b k \<noteq> []) ks)"
proof (induction ks arbitrary: written)
  case Nil
  then show ?case by simp
next
  case (Cons k ks)
  show ?case
  proof (cases "b k = []")
    case True
    with Cons.prems have "save_buckets L b ks written = Finished files" by simp
    from Cons.IH [OF this] True show ?thesis by simp
  next
    case False
    with Cons.prems obtain minimal where m: "minimize_all L (b k) = Inr minimal"
      and rest: "save_buckets L b ks (written @ [(bucket_name k, minimal)]) = Finished files"
      by (auto split: sum.splits)
    from Cons.IH [OF rest] m False show ?thesis by simp
  qed
qed


lemma split_Finished:
  assumes "load_conversations data = Some conversations"
      and "py_iter conversations = Inr convs"
      and "split_conversations_by_time L now data = Finished files"
  shows "\<exists>b. sort_into L now convs (\<lambda>k. []) = Inr b
           \<and> save_buckets L b bucket_order [] = Finished files"
  using assms
  by (auto simp: split_conversations_by_time_def split: sum.splits if_splits)

lemma bucket_order_all: "k \<in> set bucket_order"
  by (cases k) (simp_all add: bucket_order_def)

lemma sum_list_nonempty:
  "sum_list (map (\<lambda>k. length (f k)) (filter (\<lambda>k. g k \<noteq> []) ks)) = sum_list (map (\<lambda>k. length (g k)) ks)"
  if "\<And>k. length (f k) = length (g k)"
  by (induction ks) (simp_all add: that)

lemma saved_files:
  assumes "save_buckets L b bucket_order [] = Finished files"
  shows "\<exists>ms. (\<forall>k. list_all2 (\<lambda>c m. minimize_conv L c = Inr m) (b k) (ms k))
           \<and> files = map (\<lambda>k. (bucket_name k, ms k)) (filter (\<lambda>k. b k \<noteq> []) bucket_order)"
proof -
  let ?ms = "\<lambda>k. projr (minimize_all L (b k))"
  from save_buckets_Finished [OF assms]
  have ex: "\<forall>k \<in> set bucket_order. \<exists>ms. minimize_all L (b k) = Inr ms"
    and files: "files = map (\<lambda>k. (bucket_name k, ?ms k)) (filter (\<lambda>k. b k \<noteq> []) bucket_order)"
    by simp_all
  have "list_all2 (\<lambda>c m. minimize_conv L c = Inr m) (b k) (?ms k)" for k
  proof -
    from ex bucket_order_all obtain ms where "minimize_all L (b k) = Inr ms" by blast
    then show ?thesis by (simp add: minimize_all_list_all2 [symmetric])
  qed
  then have "(\<forall>k. list_all2 (\<lambda>c m. minimize_conv L c = Inr m) (b k) (?ms k))
           \<and> files = map (\<lambda>k. (bucket_name k, ?ms k)) (filter (\<lambda>k. b k \<noteq> []) bucket_order)"
    using files by simp
  then show ?thesis by (rule exI [of _ ?ms])
qed

text \<open>
  Claim C1. When a run finishes, the four buckets partition the input sequence: the
  buckets together hold exactly the records of the input, each record is in exactly one
  bucket, every bucket is minimized record by record into its file, and the files
  together hold as many minimized conversations as the input has records.
\<close>

theorem buckets_partition_input:
  assumes load: "load_conversations data = Some conversations"
      and iter: "py_iter conversations = Inr convs"
      and fin: "split_conversations_by_time L now data = Finished files"
  shows "\<exists>b ms. sort_into L now convs (\<lambda>k. []) = Inr b
           \<and> mset convs = mset (b Last_3_months) + mset (b B_3_6_months)
                          + mset (b B_6_12_months) + mset (b Older)
           \<and> (\<forall>c \<in> set convs. \<exists>!k. c \<in> set (b k))
           \<and> (\<forall>k. list_all2 (\<lambda>c m. minimize_conv L c = Inr m) (b k) (ms k))
           \<and> files = map (\<lambda>k. (bucket_name k, ms k)) (filter (\<lambda>k. b k \<noteq> []) bucket_order)
           \<and> sum_list (map (\<lambda>f. length (snd f)) files) = length convs"
proof -
  from split_Finished [OF load iter fin] obtain b
    where sorted: "sort_into L now convs (\<lambda>k. []) = Inr b"
      and saved: "save_buckets L b bucket_order [] = Finished files"
    by blast
  have b: "b k = filter (\<lambda>c. classify L now c = Inr k) convs" for k
    using sort_into_filter [OF sorted, of k] by simp
  have total: "\<forall>c \<in> set convs. \<exists>k. classify L now c = Inr k"
    using sort_into_total [OF sorted] by blast
  have part: "mset convs = mset (b Last_3_months) + mset (b B_3_6_months)
                          + mset (b B_6_12_months) + mset (b Older)"
    using mset_four_filters [OF total] by (simp add: b)
  have one: "\<forall>c \<in> set convs. \<exists>!k. c \<in> set (b k)"
  proof
    fix c assume c: "c \<in> set convs"
    with total obtain k where "classify L now c = Inr k" by blast
    with c show "\<exists>!k. c \<in> set (b k)" by (auto simp: b)
  qed
  from saved_files [OF saved] obtain ms
    where ms: "\<forall>k. list_all2 (\<lambda>c m. minimize_conv L c = Inr m) (b k) (ms k)"
      and files: "files = map (\<lambda>k. (bucket_name k, ms k)) (filter (\<lambda>k. b k \<noteq> []) bucket_order)"
    by blast
  have len: "length (ms k) = length (b k)" for k
    using ms by (metis list_all2_lengthD)
  have "sum_list (map (\<lambda>f. length (snd f)) files)
        = sum_list (map (\<lambda>k. length (ms k)) (filter (\<lambda>k. b k \<noteq> []) bucket_order))"
    by (simp add: files comp_def)
  also have "\<dots> = sum_list (map (\<lambda>k. length (b k)) bucket_order)"
    by (rule sum_list_nonempty) (rule len)
  also have "\<dots> = size (mset convs)"
    by (simp add: part bucket_order_def)
  finally have count: "sum_list (map (\<lambda>f. length (snd f)) files) = length convs"
    by simp
  from sorted part one ms files count show ?thesis by blast
qed


text \<open>
  Claim C2. A record whose timestamp resolves to the instant \<open>u\<close> is routed by the
  ordered chain: \<open>u\<close> equal to now minus 90 days (or later) goes to last-3-months, an
  older \<open>u\<close> down to now minus 180 days included goes to 3-6-months, an older one down to
  now minus 365 days included goes to 6-12-months, anything older goes to older.
\<close>

theorem boundary_routing:
  assumes "find_timestamp conv = Inr ts" and "truthy ts"
      and "conv_date L ts = Inr (Some d)" and "normalize_utc d = Inr u"
  shows "(u = now - days 90 \<longrightarrow> classify L now conv = Inr Last_3_months)
       \<and> (now - days 90 \<le> u \<longrightarrow> classify L now conv = Inr Last_3_months)
       \<and> (now - days 180 \<le> u \<and> u < now - days 90 \<longrightarrow> classify L now conv = Inr B_3_6_months)
       \<and> (u = now - days 180 \<longrightarrow> classify L now conv = Inr B_3_6_months)
       \<and> (now - days 365 \<le> u \<and> u < now - days 180 \<longrightarrow> classify L now conv = Inr B_6_12_months)
       \<and> (u = now - days 365 \<longrightarrow> classify L now conv = Inr B_6_12_months)
       \<and> (u < now - days 365 \<longrightarrow> classify L now conv = Inr Older)"
proof -
  from assms have "classify L now conv = Inr (bucket_of now u)"
    by (simp add: classify_def)
  then show ?thesis
    by (simp add: bucket_of_def days_def)
qed

text \<open>
  Claim C2 at the 90-day boundary: exactly 90 days old is recent, one microsecond more
  is not.
\<close>

theorem boundary_routing_witness:
  "find_timestamp (JDict [(''create_time'', JInt 1700000000)]) = Inr (JInt 1700000000)
   \<and> truthy (JInt 1700000000)
   \<and> conv_date no_lib (JInt 1700000000) = Inr (Some \<lparr>wall = 1700000000000000, tzoff = Some 0\<rparr>)
   \<and> normalize_utc \<lparr>wall = 1700000000000000, tzoff = Some 0\<rparr> = Inr 1700000000000000
   \<and> classify no_lib (1700000000000000 + days 90) (JDict [(''create_time'', JInt 1700000000)])
       = Inr Last_3_months
   \<and> classify no_lib (1700000000000001 + days 90) (JDict [(''create_time'', JInt 1700000000)])
       = Inr B_3_6_months"
proof -
  have h1: "find_timestamp (JDict [(''create_time'', JInt 1700000000)]) = Inr (JInt 1700000000)"
    by (simp add: find_timestamp_def top_fields_def)
  have h2: "truthy (JInt 1700000000)" by simp
  have h3: "conv_date no_lib (JInt 1700000000)
            = Inr (Some \<lparr>wall = 1700000000000000, tzoff = Some 0\<rparr>)"
    by (simp add: conv_date_def numeric_date_def datetime_from_timet_and_us_def)
  have h4: "normalize_utc \<lparr>wall = 1700000000000000, tzoff = Some 0\<rparr> = Inr 1700000000000000"
    by (simp add: normalize_utc_def)
  from boundary_routing [OF h1 h2 h3 h4, of "1700000000000000 + days 90"]
       boundary_routing [OF h1 h2 h3 h4, of "1700000000000001 + days 90"]
       h1 h2 h3 h4
  show ?thesis by (simp add: days_def)
qed

text \<open>
  An integer from -62135596800 to 253402300799, the seconds of the years 1 to 9999, is
  read as that many whole seconds since the epoch.
\<close>

lemma seconds_reading_exact:
  assumes "n \<le> 253402300799" and "- 62135596800 \<le> n"
  shows "conv_date L (JInt n) = Inr (Some \<lparr>wall = n * 1000000, tzoff = Some 0\<rparr>)"
  using assms by (simp add: conv_date_def numeric_date_def datetime_from_timet_and_us_def)

text \<open>
  Readings in milliseconds and of a fraction, with the rounding of doubles: the quotient
  of 10000000000001 by 1000 is not a double, and its nearest double lies below the
  exact quotient.
\<close>

lemma double_reading_examples:
  "numeric_date (PyInt 1700000000000) = Inr \<lparr>wall = 1700000000000000, tzoff = Some 0\<rparr>"
  "numeric_date (PyInt 10000000000001) = Inr \<lparr>wall = 10000000000000999, tzoff = Some 0\<rparr>"
  "numeric_date (PyFloat (Finite (5902958103587057 / 2361183241434822606848)))
     = Inr \<lparr>wall = 2, tzoff = Some 0\<rparr>"
  by code_simp+

lemma microsecond_epoch_year: "numeric_date (PyInt 1700000000000000) = Inl ValueError"
  by code_simp

text \<open>
  Claim C7 on the record \<^verbatim>\<open>{"create_time": 1700000000000000}\<close>, an epoch in
  microseconds: the number exceeds \<^verbatim>\<open>1e12\<close>, is divided by 1000 and read as seconds in
  the year 55840, and \<^verbatim>\<open>datetime.fromtimestamp\<close> raises \<^verbatim>\<open>ValueError\<close> on line 90. Nothing
  catches it: no instant results, the record reaches no bucket and the run ends with the
  exception. A string that no parser accepts is routed to the bucket older instead
  (lines 95 to 117).
\<close>

theorem numeric_timestamp_raises:
  "conv_date L (JInt 1700000000000000) = Inl ValueError
   \<and> classify L now (JDict [(''create_time'', JInt 1700000000000000)]) = Inl ValueError
   \<and> split_conversations_by_time L 1700864000000000
         (JList [JDict [(''create_time'', JInt 1700000000000000)]]) = Raised ValueError []
   \<and> classify no_lib now (JDict [(''create_time'', JStr ''soon'')]) = Inr Older"
proof -
  have a: "conv_date L (JInt 1700000000000000) = Inl ValueError"
    by (simp add: conv_date_def microsecond_epoch_year)
  have b: "classify L t (JDict [(''create_time'', JInt 1700000000000000)]) = Inl ValueError" for t
    by (simp add: classify_def find_timestamp_def top_fields_def a)
  have c: "split_conversations_by_time L 1700864000000000
         (JList [JDict [(''create_time'', JInt 1700000000000000)]]) = Raised ValueError []"
    by (simp add: split_conversations_by_time_def load_conversations_def days_def MIN_US_def b)
  have d: "classify no_lib now (JDict [(''create_time'', JStr ''soon'')]) = Inr Older"
    by (simp add: classify_def find_timestamp_def top_fields_def conv_date_def string_date_def
        strptime_formats_def no_lib_def)
  from a b c d show ?thesis by blast
qed

lemma find_filter_case:
  "(case filter P xs of [] \<Rightarrow> a | v # vs \<Rightarrow> f v) = (case find P xs of None \<Rightarrow> a | Some v \<Rightarrow> f v)"
  by (induction xs) simp_all

text \<open>
  Claim C8. For a top-level mapping without the keys \<^verbatim>\<open>conversations\<close> and \<^verbatim>\<open>items\<close> the
  loader takes the first value of the mapping that is a list, and the empty list when
  no value is a list; a document that is a list is taken as it is.
\<close>

theorem shape_fallback:
  "(''conversations'' \<notin> set (map fst kvs) \<and> ''items'' \<notin> set (map fst kvs) \<longrightarrow>
      load_conversations (JDict kvs)
        = Some (case find is_list (map snd kvs) of Some v \<Rightarrow> v | None \<Rightarrow> JList []))
   \<and> (''conversations'' \<notin> set (map fst kvs) \<and> ''items'' \<notin> set (map fst kvs)
        \<and> (\<forall>v \<in> set (map snd kvs). \<not> is_list v) \<longrightarrow>
      load_conversations (JDict kvs) = Some (JList []))
   \<and> load_conversations (JList xs) = Some (JList xs)"
proof -
  have a: "load_conversations (JDict kvs)
        = Some (case find is_list (map snd kvs) of Some v \<Rightarrow> v | None \<Rightarrow> JList [])"
    if "''conversations'' \<notin> set (map fst kvs)" "''items'' \<notin> set (map fst kvs)"
  proof -
    have "load_conversations (JDict kvs)
          = (case filter is_list (map snd kvs) of [] \<Rightarrow> Some (JList []) | v # vs \<Rightarrow> Some v)"
      using that by (simp add: load_conversations_def)
    also have "\<dots> = (case find is_list (map snd kvs) of None \<Rightarrow> Some (JList []) | Some v \<Rightarrow> Some v)"
      by (rule find_filter_case)
    finally show ?thesis by (simp split: option.splits)
  qed
  have b: "find is_list (map snd kvs) = None" if "\<forall>v \<in> set (map snd kvs). \<not> is_list v"
    using that by (simp add: find_None_iff)
  have c: "load_conversations (JList xs) = Some (JList xs)"
    by (simp add: load_conversations_def)
  from a b c show ?thesis by simp
qed

text \<open>
  Claim C1 on a document with one recent record and one record without timestamp.
\<close>

theorem buckets_partition_input_witness:
  "load_conversations (JDict [(''conversations'',
       JList [JDict [(''create_time'', JInt 1700000000)], JDict [(''title'', JStr ''x'')]])])
     = Some (JList [JDict [(''create_time'', JInt 1700000000)], JDict [(''title'', JStr ''x'')]])
   \<and> py_iter (JList [JDict [(''create_time'', JInt 1700000000)], JDict [(''title'', JStr ''x'')]])
     = Inr [JDict [(''create_time'', JInt 1700000000)], JDict [(''title'', JStr ''x'')]]
   \<and> split_conversations_by_time no_lib 1700864000000000 (JDict [(''conversations'',
       JList [JDict [(''create_time'', JInt 1700000000)], JDict [(''title'', JStr ''x'')]])])
     = Finished [(''last-3-months'', [\<lparr>messages = [], timestamp = JInt 1700000000, title = []\<rparr>]),
                 (''older'', [\<lparr>messages = [], timestamp = JNull, title = ''x''\<rparr>])]
   \<and> sum_list (map (\<lambda>f. length (snd f))
         [(''last-3-months'', [\<lparr>messages = [], timestamp = JInt 1700000000, title = []\<rparr>]),
          (''older'', [\<lparr>messages = [], timestamp = JNull, title = ''x''\<rparr>])])
     = length [JDict [(''create_time'', JInt 1700000000)], JDict [(''title'', JStr ''x'')]]"
proof -
  have h1: "load_conversations (JDict [(''conversations'',
       JList [JDict [(''create_time'', JInt 1700000000)], JDict [(''title'', JStr ''x'')]])])
     = Some (JList [JDict [(''create_time'', JInt 1700000000)], JDict [(''title'', JStr ''x'')]])"
    by (simp add: load_conversations_def)
  have h2: "py_iter (JList [JDict [(''create_time'', JInt 1700000000)], JDict [(''title'', JStr ''x'')]])
     = Inr [JDict [(''create_time'', JInt 1700000000)], JDict [(''title'', JStr ''x'')]]"
    by simp
  have h3: "split_conversations_by_time no_lib 1700864000000000 (JDict [(''conversations'',
       JList [JDict [(''create_time'', JInt 1700000000)], JDict [(''title'', JStr ''x'')]])])
     = Finished [(''last-3-months'', [\<lparr>messages = [], timestamp = JInt 1700000000, title = []\<rparr>]),
                 (''older'', [\<lparr>messages = [], timestamp = JNull, title = ''x''\<rparr>])]"
    by code_simp
  from buckets_partition_input [OF h1 h2 h3] obtain b ms
    where "sum_list (map (\<lambda>f. length (snd f))
         [(''last-3-months'', [\<lparr>messages = [], timestamp = JInt 1700000000, title = []\<rparr>]),
          (''older'', [\<lparr>messages = [], timestamp = JNull, title = ''x''\<rparr>])])
     = length [JDict [(''create_time'', JInt 1700000000)], JDict [(''title'', JStr ''x'')]]"
    by blast
  with h1 h2 h3 show ?thesis by blast
qed


text \<open>
  Claim C8 on a mapping whose second and third values are lists, and on one without lists.
\<close>

theorem shape_fallback_witness:
  "''conversations'' \<notin> set (map fst [(''version'', JInt 2), (''chats'', JList [JNull]), (''more'', JList [])])
   \<and> ''items'' \<notin> set (map fst [(''version'', JInt 2), (''chats'', JList [JNull]), (''more'', JList [])])
   \<and> load_conversations (JDict [(''version'', JInt 2), (''chats'', JList [JNull]), (''more'', JList [])])
       = Some (JList [JNull])
   \<and> filter is_list (map snd [(''version'', JInt 2)]) = []
   \<and> load_conversations (JDict [(''version'', JInt 2)]) = Some (JList [])"
proof -
  have h1: "''conversations'' \<notin> set (map fst [(''version'', JInt 2), (''chats'', JList [JNull]), (''more'', JList [])])"
    by simp
  have h2: "''items'' \<notin> set (map fst [(''version'', JInt 2), (''chats'', JList [JNull]), (''more'', JList [])])"
    by simp
  have k1: "''conversations'' \<notin> set (map fst [(''version'', JInt 2)])" by simp
  have k2: "''items'' \<notin> set (map fst [(''version'', JInt 2)])" by simp
  have k3: "\<forall>v \<in> set (map snd [(''version'', JInt 2)]). \<not> is_list v" by simp
  from shape_fallback [of "[(''version'', JInt 2), (''chats'', JList [JNull]), (''more'', JList [])]" "[]"] h1 h2
  have a: "load_conversations (JDict [(''version'', JInt 2), (''chats'', JList [JNull]), (''more'', JList [])])
       = Some (JList [JNull])"
    by simp
  from shape_fallback [of "[(''version'', JInt 2)]" "[]"] k1 k2 k3
  have b: "load_conversations (JDict [(''version'', JInt 2)]) = Some (JList [])"
    by blast
  have k4: "filter is_list (map snd [(''version'', JInt 2)]) = []" by simp
  from h1 h2 a k4 b show ?thesis by blast
qed

text \<open>
  Claim C3 on the record \<^verbatim>\<open>{"metadata": null}\<close>, which has no timestamp field at top
  level or under \<^verbatim>\<open>metadata\<close>: line 76 tests \<^verbatim>\<open>field in metadata\<close> on \<^verbatim>\<open>None\<close> and raises
  \<^verbatim>\<open>TypeError\<close>; the record reaches no bucket and the loop ends with the exception.
\<close>

theorem metadata_null_raises:
  "classify L now (JDict [(''metadata'', JNull)]) = Inl TypeError
   \<and> sort_into L now [JDict [(''metadata'', JNull)]] b = Inl TypeError"
  by (simp add: classify_def find_timestamp_def top_fields_def metadata_fields_def)

text \<open>
  Claim C5 on the record \<^verbatim>\<open>{"messages": ["hi"]}\<close>: it is classified (older), and its
  minimization raises \<^verbatim>\<open>AttributeError\<close> at \<^verbatim>\<open>msg.get\<close> on line 164, so the run ends
  with the exception before any file is written. The same element under \<^verbatim>\<open>items\<close> is
  skipped by the \<^verbatim>\<open>isinstance\<close> test of line 174.
\<close>

theorem message_not_mapping_raises:
  "classify L now (JDict [(''messages'', JList [JStr ''hi''])]) = Inr Older
   \<and> minimize_conv L (JDict [(''messages'', JList [JStr ''hi''])]) = Inl AttributeError
   \<and> split_conversations_by_time L 1700864000000000 (JList [JDict [(''messages'', JList [JStr ''hi''])]])
       = Raised AttributeError []
   \<and> minimize_conv L (JDict [(''items'', JList [JStr ''hi''])])
       = Inr \<lparr>messages = [], timestamp = JNull, title = []\<rparr>"
proof -
  have a: "classify L now (JDict [(''messages'', JList [JStr ''hi''])]) = Inr Older"
    by (simp add: classify_def find_timestamp_def top_fields_def)
  have b: "minimize_conv L (JDict [(''messages'', JList [JStr ''hi''])]) = Inl AttributeError"
    by (simp add: minimize_conv_def extract_messages_def message_entry_def message_content_def)
  have "classify L 1700864000000000 (JDict [(''messages'', JList [JStr ''hi''])]) = Inr Older"
    by (simp add: classify_def find_timestamp_def top_fields_def)
  then have c: "split_conversations_by_time L 1700864000000000
       (JList [JDict [(''messages'', JList [JStr ''hi''])]]) = Raised AttributeError []"
    by (simp add: split_conversations_by_time_def load_conversations_def days_def MIN_US_def
        bucket_order_def b)
  have d: "minimize_conv L (JDict [(''items'', JList [JStr ''hi''])])
       = Inr \<lparr>messages = [], timestamp = JNull, title = []\<rparr>"
    by (simp add: minimize_conv_def extract_messages_def item_entry_def raw_timestamp_def)
  from a b c d show ?thesis by blast
qed

lemma in_keys_iff: "key \<in> fst ` set kvs \<longleftrightarrow> map_of kvs key \<noteq> None"
  by (simp add: map_of_eq_None_iff)




text \<open>
  Claim C6, amended. The timestamp of the minimized conversation is the first truthy
  value among the top-level fields \<^verbatim>\<open>create_time\<close>, \<^verbatim>\<open>created_at\<close>, \<^verbatim>\<open>timestamp\<close>; when
  none is truthy it is the value of \<^verbatim>\<open>timestamp\<close> if that field is present, and null
  otherwise.
\<close>

theorem output_timestamp:
  assumes "minimize_conv L (JDict kvs) = Inr out"
  shows "timestamp out =
     (let field = (\<lambda>key. case map_of kvs key of Some v \<Rightarrow> v | None \<Rightarrow> JNull)
      in case find truthy [field ''create_time'', field ''created_at'', field ''timestamp''] of
           Some v \<Rightarrow> v
         | None \<Rightarrow> field ''timestamp'')"
proof -
  from assms obtain ts where ts: "raw_timestamp (JDict kvs) = Inr ts" and out: "timestamp out = ts"
    by (auto simp: minimize_conv_def and_then_Inr_iff)
  from ts show ?thesis
    unfolding out by (auto simp: raw_timestamp_def Let_def split: if_splits)
qed

text \<open>
  Claim C6, amended, on a record with a falsy \<^verbatim>\<open>create_time\<close> and a truthy \<^verbatim>\<open>created_at\<close>.
\<close>

theorem output_timestamp_witness:
  "minimize_conv no_lib (JDict [(''create_time'', JInt 0), (''created_at'', JStr ''2024-01-01'')])
     = Inr \<lparr>messages = [], timestamp = JStr ''2024-01-01'', title = []\<rparr>
   \<and> timestamp \<lparr>messages = [], timestamp = JStr ''2024-01-01'', title = []\<rparr> = JStr ''2024-01-01''"
proof -
  have h: "minimize_conv no_lib (JDict [(''create_time'', JInt 0), (''created_at'', JStr ''2024-01-01'')])
     = Inr \<lparr>messages = [], timestamp = JStr ''2024-01-01'', title = []\<rparr>"
    by (simp add: minimize_conv_def extract_messages_def raw_timestamp_def)
  from output_timestamp [OF h]
  have "timestamp \<lparr>messages = [], timestamp = JStr ''2024-01-01'', title = []\<rparr> = JStr ''2024-01-01''"
    by simp
  with h show ?thesis by blast
qed

text \<open>
  Claim C6 as stated fails: none of the three fields is truthy, and the output timestamp
  is the number 0 of the field \<^verbatim>\<open>timestamp\<close>, not null.
\<close>

theorem output_timestamp_counterexample:
  "minimize_conv no_lib (JDict [(''timestamp'', JInt 0)])
     = Inr \<lparr>messages = [], timestamp = JInt 0, title = []\<rparr>
   \<and> \<not> truthy (JInt 0) \<and> JInt 0 \<noteq> JNull"
  by (simp add: minimize_conv_def extract_messages_def raw_timestamp_def)








lemma scan_fields_dict:
  "scan_fields fs (JDict kvs) ts = Inr v \<Longrightarrow>
   v = ts \<or> (\<exists>f \<in> set fs. map_of kvs f = Some v)"
proof (induction fs)
  case Nil
  then show ?case by simp
next
  case (Cons f fs)
  show ?case
  proof (cases "f \<in> fst ` set kvs")
    case True
    with Cons.prems show ?thesis by (auto split: option.splits)
  next
    case False
    with Cons.prems have "scan_fields fs (JDict kvs) ts = Inr v" by simp
    from Cons.IH [OF this] show ?thesis by auto
  qed
qed

lemma scan_fields_dict_total: "\<exists>v. scan_fields fs (JDict kvs) ts = Inr v"
proof (induction fs)
  case Nil
  then show ?case by simp
next
  case (Cons f fs)
  show ?case
  proof (cases "f \<in> fst ` set kvs")
    case True
    then obtain v where "map_of kvs f = Some v"
      by (metis in_keys_iff not_None_eq)
    with True show ?thesis by simp
  next
    case False
    with Cons.IH show ?thesis by simp
  qed
qed

text \<open>
  A record whose recognized top-level fields are absent or falsy, and whose \<^verbatim>\<open>metadata\<close>
  is absent or is a mapping with the recognized fields absent or falsy, is placed in
  the bucket older.
\<close>

lemma unresolved_routes_to_older:
  assumes top: "\<forall>f \<in> set top_fields. \<forall>v. map_of kvs f = Some v \<longrightarrow> \<not> truthy v"
      and meta: "map_of kvs ''metadata'' = None
                 \<or> (\<exists>m. map_of kvs ''metadata'' = Some (JDict m)
                      \<and> (\<forall>f \<in> set metadata_fields. \<forall>v. map_of m f = Some v \<longrightarrow> \<not> truthy v))"
  shows "classify L now (JDict kvs) = Inr Older"
proof -
  obtain ts where ts: "scan_fields top_fields (JDict kvs) JNull = Inr ts"
    using scan_fields_dict_total by blast
  from scan_fields_dict [OF ts] top have falsy: "\<not> truthy ts" by auto
  have "\<exists>ts'. find_timestamp (JDict kvs) = Inr ts' \<and> \<not> truthy ts'"
  proof (cases "map_of kvs ''metadata''")
    case None
    then have "''metadata'' \<notin> fst ` set kvs" by (simp add: in_keys_iff)
    with ts falsy show ?thesis by (simp add: find_timestamp_def)
  next
    case (Some md)
    with meta obtain m where m: "md = JDict m"
      and mf: "\<forall>f \<in> set metadata_fields. \<forall>v. map_of m f = Some v \<longrightarrow> \<not> truthy v"
      by auto
    obtain ts' where ts': "scan_fields metadata_fields (JDict m) ts = Inr ts'"
      using scan_fields_dict_total by blast
    from scan_fields_dict [OF ts'] mf falsy have "\<not> truthy ts'" by auto
    moreover from Some have "''metadata'' \<in> fst ` set kvs" by (simp add: in_keys_iff)
    ultimately show ?thesis using ts falsy Some m ts' by (simp add: find_timestamp_def)
  qed
  then show ?thesis by (auto simp: classify_def)
qed

end
